theory Spec2Isabelle
  imports
    Complex_Main
    "HOL-Library.Sublist"
    "HOL-Library.AList"
    "HOL-Library.Char_ord"
    "HOL-Library.List_Lexorder"
begin

section \<open>Python values\<close>

text \<open>
  The exceptions that the modelled functions of \<^verbatim>\<open>panoramix/utils/signatures.py\<close> and
  \<^verbatim>\<open>panoramix/utils/supplement.py\<close> can raise. A function that can raise returns
  \<open>error + 'a\<close>, with \<open>Inl\<close> for the exception.
\<close>

datatype error =
    AttributeError
  | TypeError
  | IndexError
  | ZeroDivisionError
  | AssertionError
  | FileNotFoundError
  | LZMAError
  | EOFError
  | DatabaseError
  | KeyError

text \<open>
  The symbolic expressions of the decompiler are Python tuples of strings, integers and
  tuples: \<^verbatim>\<open>("cd", 36)\<close>, \<^verbatim>\<open>("cd", ("add", 4, ("param", "_to")))\<close>.
\<close>

datatype expr = EInt int | EStr string | ETup "expr list"

subsection \<open>\<^verbatim>\<open>str\<close> and \<^verbatim>\<open>repr\<close>\<close>

definition digit_char :: "nat \<Rightarrow> char" where
  "digit_char d = ''0123456789abcdef'' ! d"

fun str_nat :: "nat \<Rightarrow> string" where
  "str_nat n = (if n < 10 then [digit_char n] else str_nat (n div 10) @ [digit_char (n mod 10)])"

declare str_nat.simps [simp del]

text \<open>\<^verbatim>\<open>str(i)\<close> of a Python int: decimal digits, with a minus sign below zero.\<close>

definition str_int :: "int \<Rightarrow> string" where
  "str_int i = (if i < 0 then CHR ''-'' # str_nat (nat (- i)) else str_nat (nat i))"

definition backslash :: char where
  "backslash = CHR 0x5C"

definition apostrophe :: char where
  "apostrophe = CHR 0x27"

definition dquote :: char where
  "dquote = CHR 0x22"

text \<open>
  \<^verbatim>\<open>repr\<close> of a Python str. A \<open>char\<close> stands for the code point of the same number, so the
  model covers the strings whose code points are below 256. CPython writes the quote
  character and the backslash with a backslash before them, tab, newline and carriage
  return as \<^verbatim>\<open>\t\<close>, \<^verbatim>\<open>\n\<close>, \<^verbatim>\<open>\r\<close>, every other code point that is not printable
  (below 32, from 127 to 160, and 173) as \<^verbatim>\<open>\xhh\<close>, and all others as they are.
\<close>

definition printable :: "char \<Rightarrow> bool" where
  "printable c = (let n = (of_char c :: nat) in (32 \<le> n \<and> n < 127) \<or> (161 \<le> n \<and> n \<noteq> 173))"

definition repr_char :: "char \<Rightarrow> char \<Rightarrow> string" where
  "repr_char q c =
     (if c = q \<or> c = backslash then [backslash, c]
      else if c = CHR 0x09 then [backslash, CHR ''t'']
      else if c = CHR 0x0A then [backslash, CHR ''n'']
      else if c = CHR 0x0D then [backslash, CHR ''r'']
      else if \<not> printable c then
        [backslash, CHR ''x'', digit_char (of_char c div 16), digit_char (of_char c mod 16)]
      else [c])"

text \<open>The quote is the apostrophe, unless the string has an apostrophe and no double quote.\<close>

definition repr_quote :: "string \<Rightarrow> char" where
  "repr_quote s = (if apostrophe \<in> set s \<and> dquote \<notin> set s then dquote else apostrophe)"

definition repr_str :: "string \<Rightarrow> string" where
  "repr_str s = (let q = repr_quote s in q # concat (map (repr_char q) s) @ [q])"

text \<open>\<^verbatim>\<open>sep.join(xs)\<close>\<close>

fun join :: "string \<Rightarrow> string list \<Rightarrow> string" where
  "join sep [] = []"
| "join sep [x] = x"
| "join sep (x # y # ys) = x @ sep @ join sep (y # ys)"

text \<open>\<^verbatim>\<open>repr\<close> of an expression: a tuple of one element is written with a trailing comma.\<close>

fun repr_expr :: "expr \<Rightarrow> string" where
  "repr_expr (EInt i) = str_int i"
| "repr_expr (EStr s) = repr_str s"
| "repr_expr (ETup es) =
     ''('' @ join '', '' (map repr_expr es) @ (if length es = 1 then '','' else '''') @ '')''"

section \<open>The ABI and the run's storage\<close>

text \<open>
  A parameter is the dictionary \<^verbatim>\<open>{"type": t, "name": n}\<close>; an entry of the ABI is the
  dictionary \<^verbatim>\<open>res\<close> that \<^verbatim>\<open>make_abi\<close> builds, whose keys \<^verbatim>\<open>fname\<close>, \<^verbatim>\<open>name\<close>,
  \<^verbatim>\<open>params\<close> and \<^verbatim>\<open>target\<close> may be absent. The ABI is a dictionary from selector to
  entry, in insertion order.
\<close>

record param =
  p_type :: string
  p_name :: string

record 't abi_entry =
  e_fname :: "string option"
  e_name :: "string option"
  e_folded_name :: string
  e_params :: "param list option"
  e_target :: "'t option"

type_synonym 't abimap = "(string \<times> 't abi_entry) list"

text \<open>
  \<^verbatim>\<open>_storage = local()\<close> has the attributes \<^verbatim>\<open>abi\<close> and \<^verbatim>\<open>func\<close>. An attribute of a
  thread-local object that was never assigned is unset, and reading it raises
  \<^verbatim>\<open>AttributeError\<close>; \<^verbatim>\<open>None\<close> is a value of its own.
\<close>

datatype 'a attr = AttrUnset | AttrNone | AttrVal 'a

record 't storage =
  abi :: "'t abimap attr"
  func :: "'t abi_entry attr"

text \<open>\<^verbatim>\<open>_storage = local()\<close>: a new thread-local object, no attribute of which is assigned.\<close>

definition new_local :: "'t storage" where
  "new_local = \<lparr>abi = AttrUnset, func = AttrUnset\<rparr>"

text \<open>
  \<^verbatim>\<open>set_func(hash)\<close>, the one place that assigns \<^verbatim>\<open>_storage.func\<close>: the assertion reads
  \<^verbatim>\<open>_storage.abi\<close>, and \<^verbatim>\<open>_storage.abi[hash]\<close> raises \<^verbatim>\<open>KeyError\<close> for a selector that
  the ABI does not have.
\<close>

definition set_func :: "'t storage \<Rightarrow> string \<Rightarrow> error + 't storage" where
  "set_func st hash =
     (case abi st of
        AttrUnset \<Rightarrow> Inl AttributeError
      | AttrNone \<Rightarrow> Inl AssertionError
      | AttrVal a \<Rightarrow>
          (case map_of a hash of
             None \<Rightarrow> Inl KeyError
           | Some entry \<Rightarrow> Inr (st\<lparr>func := AttrVal entry\<rparr>)))"

section \<open>The Parameter Name Resolver\<close>

text \<open>
  Modelled from the spec: \<^verbatim>\<open>match\<close> of \<^verbatim>\<open>panoramix.matcher\<close> is not under src/. The spec
  (4.5) gives the shapes: a pattern tuple matches a tuple of the same length whose
  elements match in turn, a literal matches itself, \<^verbatim>\<open>:name\<close> binds anything and
  \<^verbatim>\<open>:int:name\<close> binds an integer only. One function per pattern of \<^verbatim>\<open>get_param_name\<close>.
\<close>

definition match_cd :: "expr \<Rightarrow> expr option" where
  \<comment> \<open>\<^verbatim>\<open>match(cd, ("cd", ":loc"))\<close>\<close>
  "match_cd cd =
     (case cd of
        ETup [EStr c, loc] \<Rightarrow> if c = ''cd'' then Some loc else None
      | _ \<Rightarrow> None)"

definition match_add_4_param :: "expr \<Rightarrow> expr option" where
  \<comment> \<open>\<^verbatim>\<open>match(loc, ("add", 4, ("param", ":point_loc")))\<close>\<close>
  "match_add_4_param loc =
     (case loc of
        ETup [EStr a, EInt k, ETup [EStr p, point_loc]] \<Rightarrow>
          if a = ''add'' \<and> k = 4 \<and> p = ''param'' then Some point_loc else None
      | _ \<Rightarrow> None)"

definition match_add_4_cd :: "expr \<Rightarrow> expr option" where
  \<comment> \<open>\<^verbatim>\<open>match(loc, ("add", 4, ("cd", ":point_loc")))\<close>\<close>
  "match_add_4_cd loc =
     (case loc of
        ETup [EStr a, EInt k, ETup [EStr c, point_loc]] \<Rightarrow>
          if a = ''add'' \<and> k = 4 \<and> c = ''cd'' then Some point_loc else None
      | _ \<Rightarrow> None)"

definition match_add_int_cd :: "expr \<Rightarrow> (int \<times> expr) option" where
  \<comment> \<open>\<^verbatim>\<open>match(loc, ("add", ":int:offset", ("cd", ":point_loc")))\<close>\<close>
  "match_add_int_cd loc =
     (case loc of
        ETup [EStr a, EInt offset, ETup [EStr c, point_loc]] \<Rightarrow>
          if a = ''add'' \<and> c = ''cd'' then Some (offset, point_loc) else None
      | _ \<Rightarrow> None)"

text \<open>
  The helpers of \<^verbatim>\<open>panoramix.utils.helpers\<close> that \<^verbatim>\<open>get_param_name\<close> uses are not under
  src/: the colour codes and \<^verbatim>\<open>cleanup_mul_1\<close> are parameters.
\<close>

record helpers =
  COLOR_GREEN :: string
  ENDC :: string
  cleanup_mul_1 :: "expr \<Rightarrow> expr"

text \<open>
  Modelled from the spec: \<^verbatim>\<open>colorize\<close> of \<^verbatim>\<open>panoramix.utils.helpers\<close> is not under src/.
  The spec calls its result "optionally color-highlighted": the text as it is without
  colour, and between the colour code and the end code with colour.
\<close>

definition colorize :: "helpers \<Rightarrow> string \<Rightarrow> string \<Rightarrow> bool \<Rightarrow> string" where
  "colorize hp text color add_color = (if add_color then color @ text @ ENDC hp else text)"

text \<open>What \<^verbatim>\<open>get_param_name\<close> returns: its argument, or a string.\<close>

datatype rendered = Unresolved expr | Named string

definition str_rendered :: "rendered \<Rightarrow> string" where
  \<comment> \<open>\<^verbatim>\<open>str(...)\<close> of the result of the inner call\<close>
  "str_rendered r = (case r of Unresolved e \<Rightarrow> repr_expr e | Named s \<Rightarrow> s)"

text \<open>\<^verbatim>\<open>xs[i]\<close>: an index below zero counts from the end, one out of range raises.\<close>

definition py_index :: "'a list \<Rightarrow> int \<Rightarrow> error + 'a" where
  "py_index xs i =
     (if 0 \<le> i then
        (if i < int (length xs) then Inr (xs ! nat i) else Inl IndexError)
      else if - int (length xs) \<le> i then Inr (xs ! nat (int (length xs) + i))
      else Inl IndexError)"

text \<open>\<^verbatim>\<open>m.point_loc + ".length"\<close>: only a string can be joined to a string.\<close>

definition str_add :: "expr \<Rightarrow> string \<Rightarrow> error + string" where
  "str_add e s = (case e of EStr t \<Rightarrow> Inr (t @ s) | _ \<Rightarrow> Inl TypeError)"

text \<open>
  \<^verbatim>\<open>get_param_name(cd, add_color=False, func=None)\<close>. The argument \<^verbatim>\<open>func\<close> is only passed
  on and read in the message of the assertion, so it is left out. The inner calls pass no
  \<^verbatim>\<open>add_color\<close>, which is then \<^verbatim>\<open>False\<close>.
\<close>

function get_param_name :: "helpers \<Rightarrow> 't storage \<Rightarrow> expr \<Rightarrow> bool \<Rightarrow> error + rendered" where
  "get_param_name hp st cd add_color =
     (case match_cd cd of
        None \<Rightarrow> Inl AttributeError
      | Some loc \<Rightarrow>
     (case abi st of
        AttrUnset \<Rightarrow> Inl AttributeError
      | AttrNone \<Rightarrow> Inr (Unresolved cd)
      | AttrVal _ \<Rightarrow>
     (case func st of
        AttrUnset \<Rightarrow> Inl AttributeError
      | AttrNone \<Rightarrow> Inr (Unresolved cd)
      | AttrVal f \<Rightarrow>
     (case e_params f of
        None \<Rightarrow> Inr (Unresolved cd)
      | Some params \<Rightarrow>
     (case loc of
        EInt n \<Rightarrow>
          if (n - 4) mod 32 \<noteq> 0 then Inr (Unresolved cd)
          else
            let num = (n - 4) div 32 in
            if num \<ge> int (length params) then Inr (Unresolved cd)
            else if \<not> num < int (length params) then Inl AssertionError
            else
              (case py_index params num of
                 Inl e \<Rightarrow> Inl e
               | Inr p \<Rightarrow> Inr (Named (colorize hp (p_name p) (COLOR_GREEN hp) add_color)))
      | _ \<Rightarrow>
          let cd' = cleanup_mul_1 hp cd in
          (case match_add_4_param loc of
             Some point_loc \<Rightarrow>
               (case str_add point_loc ''.length'' of
                  Inl e \<Rightarrow> Inl e
                | Inr s \<Rightarrow> Inr (Named (colorize hp s (COLOR_GREEN hp) add_color)))
           | None \<Rightarrow>
          (case match_add_4_cd loc of
             Some point_loc \<Rightarrow>
               (case get_param_name hp st (ETup [EStr ''cd'', point_loc]) False of
                  Inl e \<Rightarrow> Inl e
                | Inr r \<Rightarrow>
                    Inr (Named (colorize hp (str_rendered r @ ''.length'') (COLOR_GREEN hp) add_color)))
           | None \<Rightarrow>
          (case match_add_int_cd loc of
             Some (offset, point_loc) \<Rightarrow>
               (case get_param_name hp st (ETup [EStr ''cd'', point_loc]) False of
                  Inl e \<Rightarrow> Inl e
                | Inr r \<Rightarrow>
                    Inr (Named (colorize hp
                      (str_rendered r @ ''['' @ str_int ((offset - 36) div 32) @ '']'')
                      (COLOR_GREEN hp) add_color)))
           | None \<Rightarrow> Inr (Unresolved cd')))))))))"
  by pat_completeness auto
termination
  by (relation "measure (\<lambda>(hp, st, cd, add_color). size cd)")
     (auto simp: match_cd_def match_add_4_cd_def match_add_int_cd_def
           split: expr.splits list.splits if_splits)

declare get_param_name.simps [simp del]

section \<open>The Candidate Scorer\<close>

subsection \<open>Python floats\<close>

text \<open>
  A Python float is an IEEE 754 double: a number \<open>m * 2 ^ e\<close> with \<open>\<bar>m\<bar> < 2 ^ 53\<close>. The
  quotient of two ints and the sum of two floats are the exact result rounded to the
  nearest double, a tie going to the even significand. A double is modelled by the
  real number it stands for. The model leaves out overflow and subnormal numbers:
  it is the double arithmetic for results of magnitude from \<open>2 ^ -1022\<close> to \<open>2 ^ 1023\<close>,
  where every score and every term of a score lies.
\<close>

fun bit_length :: "nat \<Rightarrow> nat" where
  "bit_length n = (if n = 0 then 0 else Suc (bit_length (n div 2)))"

declare bit_length.simps [simp del]

definition pow2 :: "int \<Rightarrow> real" where
  "pow2 e = (if 0 \<le> e then 2 ^ nat e else 1 / 2 ^ nat (- e))"

text \<open>The exponent \<open>\<lfloor>log\<^sub>2 x\<rfloor>\<close> of a positive number.\<close>

definition ilog2 :: "real \<Rightarrow> int" where
  "ilog2 x =
     (if 1 \<le> x then int (bit_length (nat \<lfloor>x\<rfloor>)) - 1
      else - int (bit_length (nat (\<lceil>1 / x\<rceil> - 1))))"

definition round_half_even :: "real \<Rightarrow> int" where
  "round_half_even m =
     (let f = \<lfloor>m\<rfloor>; d = m - of_int f
      in if d < 1 / 2 then f else if 1 / 2 < d then f + 1 else if even f then f else f + 1)"

definition float_round :: "real \<Rightarrow> real" where
  "float_round x =
     (if x = 0 then 0
      else
        let e = ilog2 \<bar>x\<bar> - 52
        in sgn x * of_int (round_half_even (\<bar>x\<bar> / pow2 e)) * pow2 e)"

text \<open>\<^verbatim>\<open>a / b\<close> on ints: true division, correctly rounded; \<^verbatim>\<open>x + y\<close> on floats.\<close>

definition truediv :: "int \<Rightarrow> int \<Rightarrow> error + real" where
  "truediv a b = (if b = 0 then Inl ZeroDivisionError else Inr (float_round (of_int a / of_int b)))"

definition float_add :: "real \<Rightarrow> real \<Rightarrow> real" where
  "float_add x y = float_round (x + y)"

subsection \<open>\<^verbatim>\<open>match_score\<close>\<close>

text \<open>
  A candidate is the dictionary that \<^verbatim>\<open>fetch_sigs\<close> builds from a row of the table
  \<^verbatim>\<open>functions\<close>.
\<close>

record signature =
  s_hash :: string
  s_name :: string
  s_folded_name :: string
  s_params :: "param list"
  s_cooccurs :: "string list"

text \<open>
  \<^verbatim>\<open>str(func["params"])\<close>: the \<^verbatim>\<open>repr\<close> of a list of dictionaries with the keys
  \<^verbatim>\<open>type\<close> and \<^verbatim>\<open>name\<close>, as in \<^verbatim>\<open>[{'type': 'address', 'name': '_to'}]\<close>.
\<close>

definition repr_param :: "param \<Rightarrow> string" where
  "repr_param p =
     ''{'' @ [apostrophe] @ ''type'' @ [apostrophe] @ '': '' @ repr_str (p_type p) @
     '', '' @ [apostrophe] @ ''name'' @ [apostrophe] @ '': '' @ repr_str (p_name p) @ ''}''"

definition str_params :: "param list \<Rightarrow> string" where
  "str_params ps = ''['' @ join '', '' (map repr_param ps) @ '']''"

text \<open>The two counting loops: how many elements of \<open>xs\<close> are in \<open>ys\<close>.\<close>

fun count_in :: "string list \<Rightarrow> string list \<Rightarrow> int" where
  "count_in [] ys = 0"
| "count_in (h # hs) ys = (if h \<in> set ys then 1 else 0) + count_in hs ys"

definition score_c :: "signature \<Rightarrow> int" where
  "score_c f = (if sublist ''param'' (str_params (s_params f)) then 0 else 100)"

definition match_score :: "signature \<Rightarrow> string list \<Rightarrow> error + real" where
  "match_score f hashes =
     (case truediv (10 * count_in hashes (s_cooccurs f)) (int (length hashes)) of
        Inl e \<Rightarrow> Inl e
      | Inr score_a \<Rightarrow>
     (case truediv (count_in (s_cooccurs f) hashes) (int (length (s_cooccurs f))) of
        Inl e \<Rightarrow> Inl e
      | Inr score_b \<Rightarrow>
          Inr (float_add (float_add score_a score_b) (of_int (score_c f)))))"

text \<open>
  The score as the specification writes it (4.2), for a candidate with genuine parameter
  names: \<open>10 * |cooccurs \<inter> observed| / |observed| + |cooccurs \<inter> observed| / |cooccurs| + 100\<close>
  as an exact number.
\<close>

definition spec_score :: "signature \<Rightarrow> string list \<Rightarrow> real" where
  "spec_score f observed =
     10 * real (card (set (s_cooccurs f) \<inter> set observed)) / real (card (set observed))
     + real (card (set (s_cooccurs f) \<inter> set observed)) / real (card (set (s_cooccurs f)))
     + 100"

section \<open>The Signature Store\<close>

text \<open>
  The three files of the store: \<^verbatim>\<open>data/supplement.db\<close> and \<^verbatim>\<open>data/supplement.db.xz\<close> beside
  the package, and \<^verbatim>\<open>supplement.db\<close> in the cache directory.
\<close>

datatype path = DecompressedDb | CompressedDb | CacheDb

text \<open>
  A row of the table \<^verbatim>\<open>functions\<close>. The column \<^verbatim>\<open>params\<close> holds JSON text; the row of
  the model holds the value that \<^verbatim>\<open>json.loads\<close> reads from it.
\<close>

record row =
  r_hash :: string
  r_name :: string
  r_folded_name :: string
  r_params :: "param list"
  r_cooccurs :: string

text \<open>
  What a file holds: a database with the table \<^verbatim>\<open>functions\<close>; the complete xz stream of
  some content; an xz stream that ends before its end-of-stream marker, as a cut or an
  empty file does; or anything else. The probe query fails on all but the first.
\<close>

datatype content = Database "row list" | Compressed content | Truncated | Damaged

type_synonym files = "path \<rightharpoonup> content"

definition is_file :: "files \<Rightarrow> path \<Rightarrow> bool" where
  "is_file fs p = (fs p \<noteq> None)"

definition decompressed_supplements_path :: path where
  "decompressed_supplements_path = DecompressedDb"

definition compressed_supplements_path :: path where
  "compressed_supplements_path = CompressedDb"

text \<open>
  \<^verbatim>\<open>supplements_path\<close> tests \<^verbatim>\<open>decompressed_supplements_path().is_file\<close>, the bound method,
  which is not called: a method object is true whatever the files are.
\<close>

definition is_file_method_truth :: "path \<Rightarrow> bool" where
  "is_file_method_truth p = True"

definition supplements_path :: path where
  "supplements_path =
     (if is_file_method_truth decompressed_supplements_path then decompressed_supplements_path
      else CacheDb)"

text \<open>
  The probe \<^verbatim>\<open>SELECT COUNT(1) FROM functions\<close> raises \<^verbatim>\<open>DatabaseError\<close> or
  \<^verbatim>\<open>OperationalError\<close>, which \<^verbatim>\<open>check_supplements\<close> catches, unless the file is a database
  with the table.
\<close>

definition probe_ok :: "content \<Rightarrow> bool" where
  "probe_ok c = (case c of Database _ \<Rightarrow> True | _ \<Rightarrow> False)"

text \<open>
  \<^verbatim>\<open>with lzma.open(src) as inf, dst.open("wb") as outf\<close> and the copying loop.
  \<^verbatim>\<open>lzma.open\<close> raises \<^verbatim>\<open>FileNotFoundError\<close> when the source is missing; reading raises
  \<^verbatim>\<open>EOFError\<close> when the stream ends before its end-of-stream marker and \<^verbatim>\<open>LZMAError\<close>
  when the source is no xz stream. The result of a call that raises is the exception
  alone: the files it leaves (a destination that was opened for writing) are not kept.
\<close>

definition lzma_copy :: "files \<Rightarrow> path \<Rightarrow> path \<Rightarrow> error + files" where
  "lzma_copy fs src dst =
     (case fs src of
        None \<Rightarrow> Inl FileNotFoundError
      | Some (Compressed c) \<Rightarrow> Inr (fs(dst \<mapsto> c))
      | Some Truncated \<Rightarrow> Inl EOFError
      | Some _ \<Rightarrow> Inl LZMAError)"

text \<open>
  The body of \<^verbatim>\<open>check_supplements\<close> under the lock, for the working copy at the path
  \<^verbatim>\<open>panoramix_supplements\<close>: the probe and the removal of a file that fails it, then, when
  no file is there, the copy of the decompressed file if there is one and the
  decompression of the compressed file otherwise, then the assertion.
\<close>

definition check_at :: "path \<Rightarrow> files \<Rightarrow> error + files" where
  "check_at panoramix_supplements fs =
     (let fs1 = (case fs panoramix_supplements of
                   Some c \<Rightarrow> if probe_ok c then fs else fs(panoramix_supplements := None)
                 | None \<Rightarrow> fs)
      in
        (case
           (if \<not> is_file fs1 panoramix_supplements then
              let decompressed_supplements = decompressed_supplements_path in
              (case fs1 decompressed_supplements of
                 Some c \<Rightarrow> Inr (fs1(panoramix_supplements \<mapsto> c))
               | None \<Rightarrow> lzma_copy fs1 compressed_supplements_path panoramix_supplements)
            else Inr fs1)
         of
           Inl e \<Rightarrow> Inl e
         | Inr fs2 \<Rightarrow> if is_file fs2 panoramix_supplements then Inr fs2 else Inl AssertionError))"

text \<open>\<^verbatim>\<open>check_supplements()\<close>: the body for \<^verbatim>\<open>panoramix_supplements = supplements_path()\<close>.\<close>

definition check_supplements :: "files \<Rightarrow> error + files" where
  "check_supplements fs = check_at supplements_path fs"


text \<open>\<^verbatim>\<open>s.split(",")\<close>\<close>

fun split_comma :: "string \<Rightarrow> string list" where
  "split_comma [] = [[]]"
| "split_comma (c # cs) =
     (if c = CHR '','' then [] # split_comma cs
      else (case split_comma cs of w # ws \<Rightarrow> (c # w) # ws | [] \<Rightarrow> [[c]]))"

definition row_signature :: "row \<Rightarrow> signature" where
  "row_signature r =
     \<lparr>s_hash = r_hash r, s_name = r_name r, s_folded_name = r_folded_name r,
      s_params = r_params r, s_cooccurs = split_comma (r_cooccurs r)\<rparr>"

text \<open>
  The state of the store: the files, and the results that \<^verbatim>\<open>@cached\<close> keeps.

  Modelled from the spec: the decorator \<^verbatim>\<open>cached\<close> of \<^verbatim>\<open>panoramix.utils.helpers\<close> is not
  under src/. The spec (4.1): "Lookups are memoized per selector for the process
  lifetime".
\<close>

record store =
  sup_files :: files
  sigs_cache :: "string \<rightharpoonup> signature list"

text \<open>
  \<^verbatim>\<open>_cursor()\<close> runs \<^verbatim>\<open>check_supplements()\<close> and opens a cursor on the file at
  \<^verbatim>\<open>supplements_path()\<close>: the result is the files after the check and the path that the
  cursor reads.
\<close>

definition cursor :: "files \<Rightarrow> error + (files \<times> path)" where
  "cursor fs =
     (case check_supplements fs of
        Inl e \<Rightarrow> Inl e
      | Inr fs' \<Rightarrow> Inr (fs', supplements_path))"

text \<open>
  \<^verbatim>\<open>fetch_sigs(hash)\<close>: the query \<^verbatim>\<open>SELECT * from functions where hash=?\<close> raises
  \<^verbatim>\<open>DatabaseError\<close> when the file of the cursor is no database with the table.
\<close>

definition fetch_sigs :: "store \<Rightarrow> string \<Rightarrow> error + (signature list \<times> store)" where
  "fetch_sigs sto hash =
     (case sigs_cache sto hash of
        Some res \<Rightarrow> Inr (res, sto)
      | None \<Rightarrow>
     (case cursor (sup_files sto) of
        Inl e \<Rightarrow> Inl e
      | Inr (fs, p) \<Rightarrow>
     (case fs p of
        Some (Database rows) \<Rightarrow>
          let res = map row_signature (filter (\<lambda>r. r_hash r = hash) rows)
          in Inr (res, sto\<lparr>sup_files := fs, sigs_cache := (sigs_cache sto)(hash \<mapsto> res)\<rparr>)
      | _ \<Rightarrow> Inl DatabaseError)))"

section \<open>The ABI Builder\<close>

text \<open>
  What \<^verbatim>\<open>make_abi\<close> reads and writes: the storage of the run, the signature store, and
  the directories and files under \<^verbatim>\<open>cache_dir(True) / "pabi"\<close>. A file is named by its
  directory and its name. \<^verbatim>\<open>json.loads\<close> gives back the dictionary that \<^verbatim>\<open>json.dumps\<close>
  wrote (the targets being JSON values), so a file is modelled by the dictionary it holds.
\<close>

record 't world =
  w_storage :: "'t storage"
  w_store :: store
  pabi_dirs :: "string set"
  pabi_files :: "(string \<times> string) \<rightharpoonup> 't abimap"

text \<open>\<^verbatim>\<open>str(xs)\<close> of a list of strings, as in \<^verbatim>\<open>['0x12345678', '_fallback()']\<close>.\<close>

definition str_list :: "string list \<Rightarrow> string" where
  "str_list xs = ''['' @ join '', '' (map repr_str xs) @ '']''"

text \<open>
  The name of the cache file:
  \<^verbatim>\<open>hashlib.sha256(str(sorted(list(hash_targets.keys()))).encode("utf-8")).hexdigest()\<close>.
  The digest is a parameter: \<open>sha256_hexdigest s\<close> stands for the hexadecimal SHA-256
  digest of the UTF-8 encoding of \<open>s\<close>. A dictionary is the list of its items in insertion
  order, and \<^verbatim>\<open>sorted\<close> orders strings by code points.
\<close>

definition hash_name :: "(string \<Rightarrow> string) \<Rightarrow> (string \<times> 't) list \<Rightarrow> string" where
  "hash_name sha256_hexdigest hash_targets =
     sha256_hexdigest (str_list (sort (map fst hash_targets)))"

definition unknown_entry :: "string \<Rightarrow> 't abi_entry" where
  "unknown_entry h =
     \<lparr>e_fname = Some (''unknown'' @ drop 2 h @ ''()''), e_name = None,
      e_folded_name = ''unknown'' @ drop 2 h @ ''(?)'', e_params = None, e_target = None\<rparr>"

definition adopt :: "signature \<Rightarrow> 't abi_entry" where
  "adopt f =
     \<lparr>e_fname = None, e_name = Some (s_name f), e_folded_name = s_folded_name f,
      e_params = Some (s_params f), e_target = None\<rparr>"

text \<open>
  The loop \<^verbatim>\<open>for f in sigs\<close> of \<^verbatim>\<open>make_abi\<close>. The body compares the score with
  \<^verbatim>\<open>best_score\<close> and never assigns \<^verbatim>\<open>best_score\<close>, so it goes on unchanged.
\<close>

fun scan_sigs :: "signature list \<Rightarrow> string list \<Rightarrow> real \<Rightarrow> 't abi_entry \<Rightarrow> error + 't abi_entry" where
  "scan_sigs [] hashes best_score res = Inr res"
| "scan_sigs (f # sigs) hashes best_score res =
     (case match_score f hashes of
        Inl e \<Rightarrow> Inl e
      | Inr score \<Rightarrow>
          scan_sigs sigs hashes best_score (if score > best_score then adopt f else res))"

text \<open>The body of the loop \<^verbatim>\<open>for h, target in hash_targets.items()\<close>, up to \<^verbatim>\<open>res\<close>.\<close>

definition make_abi_entry ::
  "store \<Rightarrow> string list \<Rightarrow> string \<Rightarrow> 't \<Rightarrow> error + ('t abi_entry \<times> store)" where
  "make_abi_entry sto hashes h target =
     (let res = unknown_entry h in
      (case
         (if \<not> sublist ''0x'' h then Inr (res\<lparr>e_fname := Some h, e_folded_name := h\<rparr>, sto)
          else
            (case fetch_sigs sto h of
               Inl e \<Rightarrow> Inl e
             | Inr (sigs, sto') \<Rightarrow>
                 if length sigs > 0 then
                   (case scan_sigs sigs hashes 0 res of
                      Inl e \<Rightarrow> Inl e
                    | Inr res' \<Rightarrow> Inr (res', sto'))
                 else Inr (res, sto')))
       of
         Inl e \<Rightarrow> Inl e
       | Inr (res', sto') \<Rightarrow> Inr (res'\<lparr>e_target := Some target\<rparr>, sto')))"

fun make_abi_loop ::
  "(string \<times> 't) list \<Rightarrow> string list \<Rightarrow> 't abimap \<Rightarrow> store \<Rightarrow> error + ('t abimap \<times> store)" where
  "make_abi_loop [] hashes result sto = Inr (result, sto)"
| "make_abi_loop ((h, target) # items) hashes result sto =
     (case make_abi_entry sto hashes h target of
        Inl e \<Rightarrow> Inl e
      | Inr (res, sto') \<Rightarrow> make_abi_loop items hashes (AList.update h res result) sto')"

definition make_abi ::
  "(string \<Rightarrow> string) \<Rightarrow> (string \<times> 't) list \<Rightarrow> 't world \<Rightarrow> error + ('t abimap \<times> 't world)" where
  "make_abi sha256_hexdigest hash_targets w =
     (let hn = hash_name sha256_hexdigest hash_targets;
          dir_name = take 3 hn;
          w1 = (if dir_name \<notin> pabi_dirs w then w\<lparr>pabi_dirs := insert dir_name (pabi_dirs w)\<rparr> else w);
          cache_fname = (dir_name, hn @ ''.pabi'')
      in
        (case pabi_files w1 cache_fname of
           Some cached \<Rightarrow> Inr (cached, w1\<lparr>w_storage := (w_storage w1)\<lparr>abi := AttrVal cached\<rparr>\<rparr>)
         | None \<Rightarrow>
             let hashes = map fst hash_targets in
             (case make_abi_loop hash_targets hashes [] (w_store w1) of
                Inl e \<Rightarrow> Inl e
              | Inr (result, sto') \<Rightarrow>
                  Inr (result,
                       w1\<lparr>w_storage := (w_storage w1)\<lparr>abi := AttrVal result\<rparr>,
                          w_store := sto',
                          pabi_files := (pabi_files w1)(cache_fname \<mapsto> result)\<rparr>))))"

section \<open>Example values\<close>

definition example_helpers :: helpers where
  "example_helpers = \<lparr>COLOR_GREEN = ''<green>'', ENDC = ''<end>'', cleanup_mul_1 = (\<lambda>e. e)\<rparr>"

definition example_entry :: "string list \<Rightarrow> int abi_entry" where
  "example_entry names =
     \<lparr>e_fname = None, e_name = Some ''f'', e_folded_name = ''f(...)'',
      e_params = Some (map (\<lambda>n. \<lparr>p_type = ''uint256'', p_name = n\<rparr>) names),
      e_target = Some 0\<rparr>"

definition example_storage :: "string list \<Rightarrow> int storage" where
  "example_storage names =
     \<lparr>abi = AttrVal [(''0x12345678'', example_entry names)], func = AttrVal (example_entry names)\<rparr>"

definition example_sig :: "string list \<Rightarrow> string list \<Rightarrow> signature" where
  "example_sig names cooccurs =
     \<lparr>s_hash = ''0xa9059cbb'', s_name = ''transfer'', s_folded_name = ''transfer(address,uint256)'',
      s_params = map (\<lambda>n. \<lparr>p_type = ''uint256'', p_name = n\<rparr>) names, s_cooccurs = cooccurs\<rparr>"

text \<open>
  Two rows for the selector \<^verbatim>\<open>0xa9059cbb\<close>: \<^verbatim>\<open>transfer(address,uint256)\<close>, learned beside
  \<^verbatim>\<open>0x70a08231\<close>, and after it \<^verbatim>\<open>many_msg_babbage(bytes1)\<close>, learned alone.
\<close>

definition transfer_row :: row where
  "transfer_row =
     \<lparr>r_hash = ''0xa9059cbb'', r_name = ''transfer'', r_folded_name = ''transfer(address,uint256)'',
      r_params = [\<lparr>p_type = ''address'', p_name = ''_to''\<rparr>, \<lparr>p_type = ''uint256'', p_name = ''_value''\<rparr>],
      r_cooccurs = ''0xa9059cbb,0x70a08231''\<rparr>"

definition babbage_row :: row where
  "babbage_row =
     \<lparr>r_hash = ''0xa9059cbb'', r_name = ''many_msg_babbage'',
      r_folded_name = ''many_msg_babbage(bytes1)'',
      r_params = [\<lparr>p_type = ''bytes1'', p_name = ''_arg''\<rparr>],
      r_cooccurs = ''0xa9059cbb''\<rparr>"

definition example_store :: store where
  "example_store =
     \<lparr>sup_files = [DecompressedDb \<mapsto> Database [transfer_row, babbage_row]],
      sigs_cache = Map.empty\<rparr>"

definition example_world :: "int world" where
  "example_world =
     \<lparr>w_storage = \<lparr>abi = AttrUnset, func = AttrUnset\<rparr>, w_store = example_store,
      pabi_dirs = {}, pabi_files = Map.empty\<rparr>"

text \<open>A row whose column \<^verbatim>\<open>cooccurs\<close> is the empty string.\<close>

definition empty_cooccurs_row :: row where
  "empty_cooccurs_row =
     \<lparr>r_hash = ''0xa9059cbb'', r_name = ''transfer'', r_folded_name = ''transfer(address,uint256)'',
      r_params = [\<lparr>p_type = ''address'', p_name = ''_to''\<rparr>, \<lparr>p_type = ''uint256'', p_name = ''_value''\<rparr>],
      r_cooccurs = []\<rparr>"



text \<open>The entries that \<^verbatim>\<open>make_abi\<close> builds from the two rows and for a selector without rows.\<close>

definition babbage_entry :: "int abi_entry" where
  "babbage_entry =
     \<lparr>e_fname = None, e_name = Some ''many_msg_babbage'',
      e_folded_name = ''many_msg_babbage(bytes1)'',
      e_params = Some [\<lparr>p_type = ''bytes1'', p_name = ''_arg''\<rparr>],
      e_target = Some 7\<rparr>"

definition unknown_balance_entry :: "int abi_entry" where
  "unknown_balance_entry =
     \<lparr>e_fname = Some ''unknown70a08231()'', e_name = None,
      e_folded_name = ''unknown70a08231(?)'', e_params = None, e_target = Some 9\<rparr>"

definition example_hash_targets :: "(string \<times> int) list" where
  "example_hash_targets = [(''0xa9059cbb'', 7), (''0x70a08231'', 9)]"



section \<open>Lemmas\<close>

subsection \<open>The resolver\<close>

lemma match_cd_cd: "match_cd (ETup [EStr ''cd'', loc]) = Some loc"
  by (simp add: match_cd_def)

lemma str_int_1: "str_int 1 = ''1''"
  by (simp add: str_int_def str_nat.simps digit_char_def)

subsection \<open>Rounding to a double\<close>

lemma bit_length_0: "bit_length 0 = 0"
  by (subst bit_length.simps) simp

lemma bit_length_1: "bit_length 1 = 1"
  by (subst bit_length.simps) (simp add: bit_length_0)

lemma bit_length_Suc_0: "bit_length (Suc 0) = 1"
  using bit_length_1 by simp

lemma bit_length_numeral: "bit_length (numeral k) = Suc (bit_length (numeral k div 2))"
  by (subst bit_length.simps) simp

lemmas float_eval =
  float_round_def ilog2_def pow2_def round_half_even_def Let_def
  bit_length_0 bit_length_1 bit_length_Suc_0 bit_length_numeral

lemma float_round_0: "float_round 0 = 0"
  by (simp add: float_round_def)

lemma float_round_100: "float_round 100 = 100"
  by (simp add: float_eval)

lemma bit_length_bounds: "0 < n \<Longrightarrow> 2 ^ (bit_length n - 1) \<le> n \<and> n < 2 ^ bit_length n"
proof (induction n rule: bit_length.induct)
  case (1 n)
  show ?case
  proof (cases "n div 2 = 0")
    case True
    with "1.prems" have "n = 1" by (simp add: div_eq_0_iff) 
    then show ?thesis
      by (simp add: bit_length.simps [of "Suc 0"] bit_length.simps [of 0])
  next
    case False
    with "1.IH" "1.prems" have IH: "2 ^ (bit_length (n div 2) - 1) \<le> n div 2"
      "n div 2 < 2 ^ bit_length (n div 2)"
      by auto
    have pos: "0 < bit_length (n div 2)"
      using False by (subst bit_length.simps) simp
    have eq: "bit_length n = Suc (bit_length (n div 2))"
      using "1.prems" by (subst bit_length.simps) simp
    have "2 * 2 ^ (bit_length (n div 2) - 1) \<le> n"
      using IH(1) by linarith
    moreover have "2 * 2 ^ (bit_length (n div 2) - 1) = (2::nat) ^ bit_length (n div 2)"
      using pos by (cases "bit_length (n div 2)") simp_all
    moreover have "n < 2 * 2 ^ bit_length (n div 2)"
      using IH(2) by linarith
    ultimately show ?thesis
      by (simp add: eq)
  qed
qed

lemma pow2_pos: "0 < pow2 e"
  by (simp add: pow2_def)

lemma pow2_nat: "pow2 (int n) = 2 ^ n"
  by (simp add: pow2_def)

lemma pow2_neg_nat: "pow2 (- int n) = 1 / 2 ^ n"
  by (cases "n = 0") (simp_all add: pow2_def)

lemma pow2_powr: "pow2 e = 2 powr (real_of_int e)"
proof (cases "0 \<le> e")
  case True
  then show ?thesis
    by (simp add: pow2_def powr_realpow [symmetric])
next
  case False
  then have "2 powr (real_of_int e) = 1 / 2 powr (real_of_int (- e))"
    by (simp add: powr_minus_divide)
  also have "\<dots> = 1 / 2 ^ nat (- e)"
    using False by (simp add: powr_realpow [symmetric])
  finally show ?thesis
    using False by (simp add: pow2_def)
qed

lemma pow2_add: "pow2 (a + b) = pow2 a * pow2 b"
  by (simp add: pow2_powr powr_add)

lemma bit_length_bounds_real:
  assumes "0 < n"
  shows "(2::real) ^ (bit_length n - 1) \<le> real n" and "real n + 1 \<le> (2::real) ^ bit_length n"
proof -
  from bit_length_bounds [OF assms]
  have b: "2 ^ (bit_length n - 1) \<le> n" "Suc n \<le> 2 ^ bit_length n" by auto
  show "(2::real) ^ (bit_length n - 1) \<le> real n"
    using of_nat_mono [OF b(1), where 'a = real] by simp
  show "real n + 1 \<le> (2::real) ^ bit_length n"
    using of_nat_mono [OF b(2), where 'a = real] by simp
qed

lemma bit_length_pos: "0 < n \<Longrightarrow> 0 < bit_length n"
  by (subst bit_length.simps) simp

lemma ilog2_bounds:
  assumes "0 < x"
  shows "pow2 (ilog2 x) \<le> x \<and> x < pow2 (ilog2 x + 1)"
proof (cases "1 \<le> x")
  case True
  define n where "n = nat \<lfloor>x\<rfloor>"
  have n: "0 < n" "real n \<le> x" "x < real n + 1"
    using True by (simp_all add: n_def)
  note b = bit_length_bounds_real [OF n(1)]
  have pos: "0 < bit_length n"
    using n(1) by (rule bit_length_pos)
  have il: "ilog2 x = int (bit_length n - 1)"
    using True pos by (simp add: ilog2_def n_def)
  have 1: "pow2 (ilog2 x) = 2 ^ (bit_length n - 1)"
    by (simp only: il pow2_nat)
  have "ilog2 x + 1 = int (bit_length n)"
    using pos by (simp add: il)
  then have 2: "pow2 (ilog2 x + 1) = 2 ^ bit_length n"
    by (simp only: pow2_nat)
  show ?thesis
    unfolding 1 2 using b n by linarith
next
  case False
  define y where "y = 1 / x"
  define n where "n = nat (\<lceil>y\<rceil> - 1)"
  have y: "1 < y" using False assms by (simp add: y_def)
  then have c: "2 \<le> \<lceil>y\<rceil>" by linarith
  have n: "0 < n" "real n < y" "y \<le> real n + 1"
    using c by (simp_all add: n_def) linarith+
  note b = bit_length_bounds_real [OF n(1)]
  have pos: "0 < bit_length n"
    using n(1) by (rule bit_length_pos)
  have il: "ilog2 x = - int (bit_length n)"
    using False by (simp add: ilog2_def n_def y_def)
  have "y \<le> 2 ^ bit_length n"
    using b n by linarith
  then have lo: "1 / 2 ^ bit_length n \<le> x"
    using assms by (simp add: y_def field_simps)
  have "2 ^ (bit_length n - 1) < y"
    using b n by linarith
  then have hi: "x < 1 / 2 ^ (bit_length n - 1)"
    using assms by (simp add: y_def field_simps)
  have "ilog2 x + 1 = - int (bit_length n - 1)"
    using pos by (simp add: il)
  then have 2: "pow2 (ilog2 x + 1) = 1 / 2 ^ (bit_length n - 1)"
    by (simp only: pow2_neg_nat)
  have 1: "pow2 (ilog2 x) = 1 / 2 ^ bit_length n"
    by (simp only: il pow2_neg_nat)
  show ?thesis
    unfolding 1 2 using lo hi by simp
qed

lemma round_half_even_error: "\<bar>real_of_int (round_half_even m) - m\<bar> \<le> 1 / 2"
  by (simp add: round_half_even_def Let_def)

lemma float_round_error: "\<bar>float_round x - x\<bar> \<le> \<bar>x\<bar> / 2 ^ 53"
proof (cases "x = 0")
  case True
  then show ?thesis by (simp add: float_round_def)
next
  case False
  define e where "e = ilog2 \<bar>x\<bar> - 52"
  define m where "m = \<bar>x\<bar> / pow2 e"
  have fr: "float_round x = sgn x * real_of_int (round_half_even m) * pow2 e"
    using False by (simp add: float_round_def e_def m_def Let_def)
  have x: "x = sgn x * m * pow2 e"
    using pow2_pos [of e] by (simp add: m_def sgn_mult_abs flip: mult.assoc)
       
  have "float_round x - x = sgn x * (real_of_int (round_half_even m) - m) * pow2 e"
    by (subst (2) x) (simp add: fr algebra_simps)
  then have "\<bar>float_round x - x\<bar> = \<bar>real_of_int (round_half_even m) - m\<bar> * pow2 e"
    using False pow2_pos [of e] by (simp add: abs_mult abs_sgn_eq)
  also have "\<dots> \<le> 1 / 2 * pow2 e"
    using round_half_even_error [of m] pow2_pos [of e] by (simp add: mult_right_mono)
  also have "pow2 e = pow2 (ilog2 \<bar>x\<bar>) / 2 ^ 52"
  proof -
    have "pow2 (ilog2 \<bar>x\<bar>) = pow2 (e + 52)" by (simp add: e_def)
    also have "\<dots> = pow2 e * pow2 52" by (rule pow2_add)
    also have "pow2 52 = 2 ^ 52" by (simp add: pow2_def)
    finally show ?thesis by simp
  qed
  also have "1 / 2 * (pow2 (ilog2 \<bar>x\<bar>) / 2 ^ 52) \<le> \<bar>x\<bar> / 2 ^ 53"
    using ilog2_bounds [of "\<bar>x\<bar>"] False by simp
  finally show ?thesis .
qed

subsection \<open>Substrings of a \<^verbatim>\<open>repr\<close>\<close>

lemma sublist_Cons_skip: "w \<noteq> [] \<Longrightarrow> hd w \<noteq> c \<Longrightarrow> sublist w (c # B) \<longleftrightarrow> sublist w B"
  by (cases w) (simp_all add: sublist_Cons_right)

lemma sublist_skip_block: "w \<noteq> [] \<Longrightarrow> hd w \<notin> set bs \<Longrightarrow> sublist w (bs @ R) \<longleftrightarrow> sublist w R"
  by (induction bs) (simp_all add: sublist_Cons_skip)

lemma sublist_sep:
  assumes "c \<notin> set w"
  shows "sublist w (A @ c # B) \<longleftrightarrow> sublist w A \<or> sublist w B"
proof
  assume "sublist w (A @ c # B)"
  then consider "sublist w A" | "sublist w (c # B)"
    | xs1 xs2 where "w = xs1 @ xs2" "suffix xs1 A" "prefix xs2 (c # B)"
    by (auto simp: sublist_append)
  then show "sublist w A \<or> sublist w B"
  proof cases
    case 1
    then show ?thesis by simp
  next
    case 2
    show ?thesis
    proof (cases "w = []")
      case True
      then show ?thesis by simp
    next
      case False
      with assms have "hd w \<noteq> c" by (cases w) auto
      with 2 False show ?thesis by (simp add: sublist_Cons_skip)
    qed
  next
    case 3
    show ?thesis
    proof (cases xs2)
      case Nil
      with 3 show ?thesis by auto
    next
      case (Cons x xs)
      with 3 assms show ?thesis by auto
    qed
  qed
next
  assume "sublist w A \<or> sublist w B"
  then show "sublist w (A @ c # B)"
  proof
    assume "sublist w A"
    then obtain ps ss where "A = ps @ w @ ss" by (auto simp: sublist_def)
    then have "A @ c # B = ps @ w @ (ss @ c # B)" by simp
    then show ?thesis unfolding sublist_def by blast
  next
    assume "sublist w B"
    then obtain ps ss where "B = ps @ w @ ss" by (auto simp: sublist_def)
    then have "A @ c # B = (A @ c # ps) @ w @ ss" by simp
    then show ?thesis unfolding sublist_def by blast
  qed
qed

lemma repr_char_shape: "repr_char q c = [c] \<or> (\<exists>bs. repr_char q c = backslash # bs)"
  by (simp add: repr_char_def)

lemma repr_char_backslash: "repr_char q backslash \<noteq> [backslash]"
  by (simp add: repr_char_def)

lemma prefix_repr:
  assumes "\<forall>x\<in>set w. repr_char q x = [x]"
  shows "prefix w (concat (map (repr_char q) s)) \<longleftrightarrow> prefix w s"
  using assms
proof (induction s arbitrary: w)
  case Nil
  then show ?case by simp
next
  case (Cons c s)
  show ?case
  proof (cases w)
    case Nil
    then show ?thesis by simp
  next
    case w: (Cons a w')
    with Cons.prems have a: "repr_char q a = [a]" and w': "\<forall>x\<in>set w'. repr_char q x = [x]"
      by auto
    from a have ab: "a \<noteq> backslash" using repr_char_backslash by metis
    show ?thesis
    proof (cases "repr_char q c = [c]")
      case True
      then show ?thesis using Cons.IH [OF w'] by (simp add: w)
    next
      case False
      then obtain bs where bs: "repr_char q c = backslash # bs"
        using repr_char_shape by blast
      from False a have "a \<noteq> c" by auto
      then show ?thesis using ab by (simp add: w bs)
    qed
  qed
qed

lemma sublist_repr:
  assumes "w \<noteq> []" and "\<forall>x\<in>set w. repr_char q x = [x]"
    and "\<forall>c. repr_char q c \<noteq> [c] \<longrightarrow> hd w \<notin> set (repr_char q c)"
  shows "sublist w (concat (map (repr_char q) s)) \<longleftrightarrow> sublist w s"
proof (induction s)
  case Nil
  then show ?case by simp
next
  case (Cons c s)
  show ?case
  proof (cases "repr_char q c = [c]")
    case True
    have "prefix w (c # concat (map (repr_char q) s)) \<longleftrightarrow> prefix w (c # s)"
      using prefix_repr [OF assms(2), of "c # s"] True by simp
    then show ?thesis
      using Cons.IH True by (simp add: sublist_Cons_right)
  next
    case False
    with assms(3) have "hd w \<notin> set (repr_char q c)" by blast
    then have "sublist w (concat (map (repr_char q) (c # s))) \<longleftrightarrow> sublist w s"
      using Cons.IH assms(1) by (simp add: sublist_skip_block)
    moreover have "hd w \<noteq> c"
      using False assms(1,2) by (cases w) auto
    ultimately show ?thesis
      using assms(1) by (simp add: sublist_Cons_skip)
  qed
qed

lemma digit_char_not_p: "k < 16 \<Longrightarrow> digit_char k \<noteq> CHR ''p''"
proof -
  assume "k < 16"
  then have "digit_char k \<in> set ''0123456789abcdef''"
    unfolding digit_char_def by (intro nth_mem) simp
  then show ?thesis by auto
qed

lemma of_char_div_16: "(of_char c :: nat) div 16 < 16"
proof -
  have "(of_char c :: nat) mod 256 < 256" by (rule mod_less_divisor) simp
  then have "(of_char c :: nat) < 16 * 16" by simp
  then show ?thesis by (rule less_mult_imp_div_less)
qed

lemma digit_char_hex_not_p:
  "CHR ''p'' \<noteq> digit_char (of_char c div 16)" "CHR ''p'' \<noteq> digit_char (of_char c mod 16)"
  using digit_char_not_p [OF of_char_div_16 [of c]] digit_char_not_p [of "of_char c mod 16"]
  by auto

lemma param_plain:
  assumes "q = apostrophe \<or> q = dquote"
  shows "\<forall>x\<in>set ''param''. repr_char q x = [x]"
  using assms by (auto simp: repr_char_def apostrophe_def dquote_def backslash_def printable_def)

lemma param_escapes:
  assumes "q = apostrophe \<or> q = dquote"
  shows "\<forall>c. repr_char q c \<noteq> [c] \<longrightarrow> hd ''param'' \<notin> set (repr_char q c)"
  using assms
  by (auto simp: repr_char_def apostrophe_def dquote_def backslash_def digit_char_hex_not_p)

lemma repr_quote_cases: "repr_quote s = apostrophe \<or> repr_quote s = dquote"
  by (simp add: repr_quote_def)

lemma sublist_param_repr_str: "sublist ''param'' (repr_str s @ R) \<longleftrightarrow> sublist ''param'' s \<or> sublist ''param'' R"
proof -
  define q where "q = repr_quote s"
  have q: "q = apostrophe \<or> q = dquote" by (simp add: q_def repr_quote_cases)
  then have qw: "q \<notin> set ''param''" by (auto simp: apostrophe_def dquote_def)
  have eq: "repr_str s @ R = q # (concat (map (repr_char q) s) @ q # R)"
    by (simp add: repr_str_def q_def Let_def)
  have "hd ''param'' \<noteq> q"
    using qw by auto
  then have "sublist ''param'' (q # (concat (map (repr_char q) s) @ q # R))
      \<longleftrightarrow> sublist ''param'' (concat (map (repr_char q) s) @ q # R)"
    by (intro sublist_Cons_skip) simp_all
  then have "sublist ''param'' (repr_str s @ R)
      \<longleftrightarrow> sublist ''param'' (concat (map (repr_char q) s) @ q # R)"
    by (simp only: eq)
  also have "\<dots> \<longleftrightarrow> sublist ''param'' (concat (map (repr_char q) s)) \<or> sublist ''param'' R"
    using qw by (rule sublist_sep)
  also have "sublist ''param'' (concat (map (repr_char q) s)) \<longleftrightarrow> sublist ''param'' s"
    by (rule sublist_repr [OF _ param_plain [OF q] param_escapes [OF q]]) simp
  finally show ?thesis .
qed

lemma sublist_param_repr_param:
  "sublist ''param'' (repr_param p @ R)
     \<longleftrightarrow> sublist ''param'' (p_type p) \<or> sublist ''param'' (p_name p) \<or> sublist ''param'' R"
  by (simp add: repr_param_def sublist_Cons_right sublist_param_repr_str apostrophe_def)

lemma sublist_param_join:
  "sublist ''param'' (join '', '' (map repr_param ps) @ c # R)
     \<longleftrightarrow> (\<exists>p\<in>set ps. sublist ''param'' (p_type p) \<or> sublist ''param'' (p_name p))
        \<or> sublist ''param'' (c # R)"
proof (induction ps rule: induct_list012)
  case 1
  then show ?case by simp
next
  case (2 p)
  then show ?case by (simp add: sublist_param_repr_param)
next
  case (3 p p' ps)
  then show ?case
    by (simp add: sublist_param_repr_param sublist_Cons_right)
qed

lemma sublist_param_str_params:
  "sublist ''param'' (str_params ps)
     \<longleftrightarrow> (\<exists>p\<in>set ps. sublist ''param'' (p_type p) \<or> sublist ''param'' (p_name p))"
  by (simp add: str_params_def sublist_Cons_right sublist_param_join)

subsection \<open>Counting\<close>

lemma count_in_card: "distinct xs \<Longrightarrow> count_in xs ys = int (card (set xs \<inter> set ys))"
  by (induction xs) simp_all

lemma count_in_disjoint: "set xs \<inter> set ys = {} \<Longrightarrow> count_in xs ys = 0"
  by (induction xs) auto

lemma card_inter_le:
  "card (set xs \<inter> set ys) \<le> card (set xs)" "card (set xs \<inter> set ys) \<le> card (set ys)"
  by (simp_all add: card_mono)

subsection \<open>The error of a score\<close>

lemma float_round_error_eps:
  assumes "\<bar>x\<bar> \<le> c" and "eps = 1 / 2 ^ 53"
  shows "\<bar>float_round x - x\<bar> \<le> c * eps"
proof -
  have "\<bar>float_round x - x\<bar> \<le> \<bar>x\<bar> / 2 ^ 53"
    by (rule float_round_error)
  also have "\<dots> \<le> c / 2 ^ 53"
    using assms(1) by (simp add: divide_right_mono)
  finally show ?thesis
    by (simp add: assms(2))
qed

lemma float_score_error:
  assumes "0 \<le> a" "a \<le> 10" "0 \<le> b" "b \<le> 1"
  shows "\<bar>float_round (float_round (float_round a + float_round b) + 100) - (a + b + 100)\<bar>
           \<le> 1 / 2 ^ 45"
proof -
  define eps :: real where "eps = 1 / 2 ^ 53"
  have eps: "0 < eps" "eps \<le> 1 / 100" "256 * eps = 1 / 2 ^ 45"
    by (simp_all add: eps_def)
  define A where "A = float_round a"
  define B where "B = float_round b"
  define S where "S = float_round (A + B)"
  define T where "T = float_round (S + 100)"
  have eA: "\<bar>A - a\<bar> \<le> 10 * eps"
    unfolding A_def using assms by (intro float_round_error_eps eps_def) simp
  have eB: "\<bar>B - b\<bar> \<le> 1 * eps"
    unfolding B_def using assms by (intro float_round_error_eps eps_def) simp
  have AB: "\<bar>A + B\<bar> \<le> 12"
    using eA eB assms eps(1,2) by linarith
  have eS: "\<bar>S - (A + B)\<bar> \<le> 12 * eps"
    unfolding S_def using AB by (intro float_round_error_eps eps_def)
  have S100: "\<bar>S + 100\<bar> \<le> 113"
    using eS AB eps(1,2) by linarith
  have eT: "\<bar>T - (S + 100)\<bar> \<le> 113 * eps"
    unfolding T_def using S100 by (intro float_round_error_eps eps_def)
  have "\<bar>T - (a + b + 100)\<bar> \<le> 256 * eps"
    using eA eB eS eT eps(1) by linarith
  then show ?thesis
    by (simp only: eps(3) T_def S_def A_def B_def)
qed

lemma float_round_small_ints:
  "float_round 1 = 1" "float_round 5 = 5" "float_round 6 = 6" "float_round 10 = 10"
  "float_round 11 = 11" "float_round 106 = 106" "float_round 111 = 111"
  by (simp_all add: float_eval)

subsection \<open>The store\<close>

lemma split_comma_not_Nil: "split_comma s \<noteq> []"
  by (induction s) (auto split: list.splits)

lemma supplements_path_eq: "supplements_path = DecompressedDb"
  by (simp add: supplements_path_def is_file_method_truth_def decompressed_supplements_path_def)

subsection \<open>The example rows\<close>

lemma score_c_example_sig: "score_c (example_sig [''_to'', ''_value''] cs) = 100"
  by (simp add: score_c_def sublist_param_str_params example_sig_def sublist_Cons_right)

lemma score_c_transfer: "score_c (row_signature transfer_row) = 100"
  by (simp add: score_c_def sublist_param_str_params row_signature_def transfer_row_def
        sublist_Cons_right)

lemma score_c_babbage: "score_c (row_signature babbage_row) = 100"
  by (simp add: score_c_def sublist_param_str_params row_signature_def babbage_row_def
        sublist_Cons_right)

lemma match_score_transfer:
  "match_score (row_signature transfer_row) [''0xa9059cbb'', ''0x70a08231''] = Inr 111"
  by (simp add: match_score_def score_c_transfer truediv_def float_add_def float_round_small_ints)
     (simp add: row_signature_def transfer_row_def float_round_small_ints)

lemma match_score_babbage:
  "match_score (row_signature babbage_row) [''0xa9059cbb'', ''0x70a08231''] = Inr 106"
  by (simp add: match_score_def score_c_babbage truediv_def float_add_def float_round_small_ints)
     (simp add: row_signature_def babbage_row_def float_round_small_ints)

lemma check_example: "check_supplements (sup_files example_store) = Inr (sup_files example_store)"
  by (simp add: check_supplements_def check_at_def example_store_def supplements_path_eq
        decompressed_supplements_path_def probe_ok_def is_file_def)

lemma fetch_example:
  "fetch_sigs example_store ''0xa9059cbb''
     = Inr ([row_signature transfer_row, row_signature babbage_row],
            example_store\<lparr>sigs_cache :=
              [''0xa9059cbb'' \<mapsto> [row_signature transfer_row, row_signature babbage_row]]\<rparr>)"
  unfolding fetch_sigs_def cursor_def check_example
  by (simp add: example_store_def supplements_path_eq)
     (simp add: transfer_row_def babbage_row_def Let_def)

lemma entry_transfer:
  "make_abi_entry example_store [''0xa9059cbb'', ''0x70a08231''] ''0xa9059cbb'' 7
     = Inr (babbage_entry,
            example_store\<lparr>sigs_cache :=
              [''0xa9059cbb'' \<mapsto> [row_signature transfer_row, row_signature babbage_row]]\<rparr>)"
proof -
  have "sublist ''0x'' ''0xa9059cbb''"
    by (simp add: sublist_Cons_right)
  then show ?thesis
    by (simp add: match_score_transfer match_score_babbage make_abi_entry_def fetch_example adopt_def)
       (simp add: row_signature_def babbage_row_def babbage_entry_def)
qed

lemma entry_balance:
  assumes "c ''0x70a08231'' = None"
  shows "make_abi_entry (example_store\<lparr>sigs_cache := c\<rparr>) [''0xa9059cbb'', ''0x70a08231'']
           ''0x70a08231'' 9
     = Inr (unknown_balance_entry, example_store\<lparr>sigs_cache := c(''0x70a08231'' \<mapsto> [])\<rparr>)"
proof -
  have "sublist ''0x'' ''0x70a08231''"
    by (simp add: sublist_Cons_right)
  moreover have "fetch_sigs (example_store\<lparr>sigs_cache := c\<rparr>) ''0x70a08231''
      = Inr ([], example_store\<lparr>sigs_cache := c(''0x70a08231'' \<mapsto> [])\<rparr>)"
    using assms check_example unfolding fetch_sigs_def cursor_def
    by (simp add: example_store_def supplements_path_eq transfer_row_def babbage_row_def)
  ultimately show ?thesis
    by (simp add: make_abi_entry_def unknown_entry_def unknown_balance_entry_def)
qed

lemma example_run:
  "map_sum id fst (make_abi sha example_hash_targets example_world)
     = Inr [(''0xa9059cbb'', babbage_entry), (''0x70a08231'', unknown_balance_entry)]"
  by (simp add: make_abi_def Let_def example_world_def example_hash_targets_def
        entry_transfer entry_balance)

subsection \<open>The cache of the ABI Builder\<close>

lemma sort_same_keys:
  fixes xs ys :: "string list"
  assumes "distinct xs" and "distinct ys" and "set xs = set ys"
  shows "sort xs = sort ys"
proof (rule sorted_distinct_set_unique)
  show "sorted (sort xs)" "sorted (sort ys)" by simp_all
  show "distinct (sort xs)" "distinct (sort ys)" using assms by simp_all
  show "set (sort xs) = set (sort ys)" using assms by simp
qed

lemma make_abi_cached:
  assumes "pabi_files w (take 3 hn, hn @ ''.pabi'') = Some r"
    and "abi (w_storage w) = AttrVal r" and "take 3 hn \<in> pabi_dirs w"
    and "hash_name sha ht = hn"
  shows "make_abi sha ht w = Inr (r, w)"
  using assms by (simp add: make_abi_def Let_def)

lemma make_abi_result:
  assumes "make_abi sha ht w = Inr (r, w1)" and "hn = hash_name sha ht"
  shows "pabi_files w1 (take 3 hn, hn @ ''.pabi'') = Some r
       \<and> abi (w_storage w1) = AttrVal r \<and> take 3 hn \<in> pabi_dirs w1"
  using assms
  by (auto simp: make_abi_def Let_def split: option.splits sum.splits if_splits)

subsection \<open>The storage after \<^verbatim>\<open>make_abi\<close>\<close>

lemma example_run_storage:
  "map_sum id (\<lambda>(r, w). w_storage w) (make_abi sha example_hash_targets example_world)
     = Inr \<lparr>abi = AttrVal [(''0xa9059cbb'', babbage_entry), (''0x70a08231'', unknown_balance_entry)],
            func = AttrUnset\<rparr>"
  by (simp add: make_abi_def Let_def example_world_def example_hash_targets_def
        entry_transfer entry_balance)

text \<open>
  The three guards at the head of \<^verbatim>\<open>get_param_name\<close> return the expression when the
  attribute they read holds \<^verbatim>\<open>None\<close>, or the entry has no key \<^verbatim>\<open>params\<close>.
\<close>

lemma get_param_name_guards:
  assumes "abi st = AttrNone
         \<or> (abi st = AttrVal a \<and> func st = AttrNone)
         \<or> (abi st = AttrVal a \<and> func st = AttrVal f \<and> e_params f = None)"
  shows "get_param_name hp st (ETup [EStr ''cd'', loc]) add_color
           = Inr (Unresolved (ETup [EStr ''cd'', loc]))"
  using assms by (subst get_param_name.simps) (auto simp: match_cd_cd)

section \<open>The claims\<close>

subsection \<open>C1: the candidate that the ABI Builder adopts\<close>

text \<open>
  C1. The claim: for a selector with candidates, \<^verbatim>\<open>make_abi\<close> adopts the candidate whose
  score is strictly greatest, the first one on a tie, and keeps the placeholder only when
  the best score is zero or negative.

  The loop of \<^verbatim>\<open>make_abi\<close> never assigns \<^verbatim>\<open>best_score\<close>, so every candidate with a score
  above zero replaces the one before it and the last of them stays. For the selectors
  \<^verbatim>\<open>0xa9059cbb\<close> and \<^verbatim>\<open>0x70a08231\<close>, the row of \<^verbatim>\<open>transfer\<close> scores 111 and the later row
  of \<^verbatim>\<open>many_msg_babbage\<close> scores 106, and \<^verbatim>\<open>make_abi\<close> adopts \<^verbatim>\<open>many_msg_babbage\<close>.
\<close>

theorem make_abi_keeps_last_candidate:
  "match_score (row_signature transfer_row) (map fst example_hash_targets) = Inr 111
   \<and> match_score (row_signature babbage_row) (map fst example_hash_targets) = Inr 106
   \<and> map_sum id fst (make_abi sha example_hash_targets example_world)
       = Inr [(''0xa9059cbb'', babbage_entry), (''0x70a08231'', unknown_balance_entry)]"
  using match_score_transfer match_score_babbage example_run [of sha]
  by (simp add: example_hash_targets_def)

subsection \<open>C2: an index beyond the parameter list\<close>

text \<open>
  C2. For a direct read \<^verbatim>\<open>("cd", offset)\<close> with an integer offset such that
  \<open>(offset - 4) mod 32 = 0\<close>, when the index \<open>(offset - 4) div 32\<close> is at least the length
  of the parameter list of the current function, \<^verbatim>\<open>get_param_name\<close> returns the expression
  as it is: it raises nothing, and the assertion after the test cannot fail.
\<close>

theorem get_param_name_index_out_of_range:
  assumes "abi st = AttrVal a" and "func st = AttrVal f" and "e_params f = Some params"
    and "(offset - 4) mod 32 = 0"
    and "int (length params) \<le> (offset - 4) div 32"
  shows "get_param_name hp st (ETup [EStr ''cd'', EInt offset]) add_color
           = Inr (Unresolved (ETup [EStr ''cd'', EInt offset]))"
  using assms by (subst get_param_name.simps) (simp add: match_cd_cd Let_def)

theorem get_param_name_index_out_of_range_witness:
  "(68 - 4) mod 32 = (0::int)
   \<and> int (length [\<lparr>p_type = ''uint256'', p_name = ''_from''\<rparr>, \<lparr>p_type = ''uint256'', p_name = ''_to''\<rparr>])
       \<le> (68 - 4) div 32
   \<and> get_param_name example_helpers (example_storage [''_from'', ''_to''])
       (ETup [EStr ''cd'', EInt 68]) True
       = Inr (Unresolved (ETup [EStr ''cd'', EInt 68]))"
proof -
  have 1: "abi (example_storage [''_from'', ''_to''])
      = AttrVal [(''0x12345678'', example_entry [''_from'', ''_to''])]"
    by (simp add: example_storage_def)
  have 2: "func (example_storage [''_from'', ''_to'']) = AttrVal (example_entry [''_from'', ''_to''])"
    by (simp add: example_storage_def)
  have 3: "e_params (example_entry [''_from'', ''_to''])
      = Some [\<lparr>p_type = ''uint256'', p_name = ''_from''\<rparr>, \<lparr>p_type = ''uint256'', p_name = ''_to''\<rparr>]"
    by (simp add: example_entry_def)
  have 4: "(68 - 4) mod 32 = (0::int)" by simp
  have 5: "int (length [\<lparr>p_type = ''uint256'', p_name = ''_from''\<rparr>,
      \<lparr>p_type = ''uint256'', p_name = ''_to''\<rparr>]) \<le> (68 - 4) div 32"
    by simp
  show ?thesis
    using get_param_name_index_out_of_range [OF 1 2 3 4 5, of example_helpers True] 4 5
    by simp
qed

subsection \<open>C3: the scoring formula\<close>

text \<open>
  C3. The claim: for non-empty \<open>cooccurs\<close>, a non-empty observed set and genuine parameter
  names the score is \<open>10 * |cooccurs \<inter> observed| / |observed| + |cooccurs \<inter> observed| /
  |cooccurs| + 100\<close> as an exact rational, and \<open>{s1, s2, s3}\<close> against \<open>{s1, s2, s4}\<close> gives
  \<open>10 * (2 / 3) + 2 / 3 + 100 = 106.666...\<close>.

  \<^verbatim>\<open>match_score\<close> computes with floats, and the sum in the example is \<open>322 / 3 =
  107.333...\<close>: on the example \<^verbatim>\<open>match_score\<close> returns the double
  \<open>7552911875069269 / 2 ^ 46\<close>, which Python prints as \<^verbatim>\<open>107.33333333333333\<close>; it is neither
  \<open>320 / 3 = 106.666...\<close> nor the exact value of the formula.
\<close>

theorem match_score_example_counterexample:
  "match_score (example_sig [''_to'', ''_value''] [''0x00000001'', ''0x00000002'', ''0x00000003''])
     [''0x00000001'', ''0x00000002'', ''0x00000004''] = Inr (7552911875069269 / 70368744177664)
   \<and> (7552911875069269 / 70368744177664 :: real) \<noteq> 320 / 3
   \<and> (7552911875069269 / 70368744177664 :: real) \<noteq> 10 * (2 / 3) + 2 / 3 + 100"
proof -
  have "truediv 20 3 = Inr (7505999378950827 / 2 ^ 50)"
    by (simp add: truediv_def float_eval)
  moreover have "truediv 2 3 = Inr (6004799503160661 / 2 ^ 53)"
    by (simp add: truediv_def float_eval)
  moreover have "float_add (float_add (7505999378950827 / 2 ^ 50) (6004799503160661 / 2 ^ 53)) 100
      = 7552911875069269 / 70368744177664"
    by (simp add: float_add_def float_eval)
  moreover have "score_c (example_sig [''_to'', ''_value''] cs) = 100" for cs
    by (rule score_c_example_sig)
  ultimately show ?thesis
    by (simp add: match_score_def) (simp add: example_sig_def)
qed

text \<open>
  C3, amended. For a candidate with a non-empty \<open>cooccurs\<close> without duplicates, a non-empty
  observed list without duplicates and \<open>score_c = 100\<close>, the score is the formula computed
  in double precision, each quotient and each sum rounded to the nearest double, and it
  differs from the exact value of the formula by at most \<open>2 ^ -45\<close>.
\<close>

theorem match_score_formula:
  assumes "hashes \<noteq> []" and "s_cooccurs f \<noteq> []"
    and "distinct hashes" and "distinct (s_cooccurs f)"
    and "score_c f = 100"
  shows "match_score f hashes =
     Inr (float_round
           (float_round
              (float_round (10 * real (card (set (s_cooccurs f) \<inter> set hashes)) / real (card (set hashes)))
               + float_round (real (card (set (s_cooccurs f) \<inter> set hashes)) / real (card (set (s_cooccurs f)))))
            + 100))
     \<and> \<bar>float_round
           (float_round
              (float_round (10 * real (card (set (s_cooccurs f) \<inter> set hashes)) / real (card (set hashes)))
               + float_round (real (card (set (s_cooccurs f) \<inter> set hashes)) / real (card (set (s_cooccurs f)))))
            + 100) - spec_score f hashes\<bar> \<le> 1 / 2 ^ 45"
proof
  show "match_score f hashes =
     Inr (float_round
           (float_round
              (float_round (10 * real (card (set (s_cooccurs f) \<inter> set hashes)) / real (card (set hashes)))
               + float_round (real (card (set (s_cooccurs f) \<inter> set hashes)) / real (card (set (s_cooccurs f)))))
            + 100))"
    using assms
    by (simp add: match_score_def truediv_def float_add_def count_in_card distinct_card Int_commute)
next
  define k where "k = card (set (s_cooccurs f) \<inter> set hashes)"
  define n where "n = card (set hashes)"
  define m where "m = card (set (s_cooccurs f))"
  have pos: "0 < n" "0 < m"
    using assms(1,2) by (simp_all add: n_def m_def card_gt_0_iff)
  have le: "k \<le> n" "k \<le> m"
    using card_inter_le [of "s_cooccurs f" hashes] by (simp_all add: k_def n_def m_def)
  have a: "0 \<le> 10 * real k / real n" "10 * real k / real n \<le> 10"
    using pos le by (simp_all add: field_simps)
  have b: "0 \<le> real k / real m" "real k / real m \<le> 1"
    using pos le by (simp_all add: field_simps)
  show "\<bar>float_round
           (float_round
              (float_round (10 * real (card (set (s_cooccurs f) \<inter> set hashes)) / real (card (set hashes)))
               + float_round (real (card (set (s_cooccurs f) \<inter> set hashes)) / real (card (set (s_cooccurs f)))))
            + 100) - spec_score f hashes\<bar> \<le> 1 / 2 ^ 45"
    using float_score_error [OF a b] by (simp add: spec_score_def k_def n_def m_def)
qed

theorem match_score_formula_witness:
  "match_score (example_sig [''_to'', ''_value''] [''0x00000001'', ''0x00000002'', ''0x00000003''])
     [''0x00000001'', ''0x00000002'', ''0x00000004''] = Inr (7552911875069269 / 70368744177664)
   \<and> spec_score (example_sig [''_to'', ''_value''] [''0x00000001'', ''0x00000002'', ''0x00000003''])
     [''0x00000001'', ''0x00000002'', ''0x00000004''] = 322 / 3
   \<and> \<bar>7552911875069269 / 70368744177664 - 322 / 3 :: real\<bar> \<le> 1 / 2 ^ 45"
proof -
  let ?f = "example_sig [''_to'', ''_value''] [''0x00000001'', ''0x00000002'', ''0x00000003'']"
  let ?h = "[''0x00000001'', ''0x00000002'', ''0x00000004'']"
  have 1: "?h \<noteq> []" by simp
  have 2: "s_cooccurs ?f \<noteq> []" by (simp add: example_sig_def)
  have 3: "distinct ?h" by simp
  have 4: "distinct (s_cooccurs ?f)" by (simp add: example_sig_def)
  have 5: "score_c ?f = 100" by (rule score_c_example_sig)
  have i: "set (s_cooccurs ?f) \<inter> set ?h = {''0x00000001'', ''0x00000002''}"
    by (auto simp: example_sig_def)
  have c: "card (set (s_cooccurs ?f) \<inter> set ?h) = 2" "card (set ?h) = 3"
    "card (set (s_cooccurs ?f)) = 3"
    unfolding i by (simp_all add: example_sig_def)
  have v: "float_round (float_round (float_round (20 / 3) + float_round (2 / 3)) + 100)
      = 7552911875069269 / 70368744177664"
    by (simp add: float_eval)
  show ?thesis
    using match_score_formula [OF 1 2 3 4 5] unfolding c spec_score_def by (simp add: v)
qed

subsection \<open>C4: the term \<open>score_c\<close>\<close>

text \<open>
  C4. The claim: \<open>score_c\<close> is 100 exactly when no parameter name is the literal token
  \<^verbatim>\<open>param\<close>, so that a parameter named \<^verbatim>\<open>param1\<close> or \<^verbatim>\<open>_params\<close> still earns 100.

  \<^verbatim>\<open>match_score\<close> tests whether \<^verbatim>\<open>param\<close> occurs anywhere in \<^verbatim>\<open>str(func["params"])\<close>: the
  names \<^verbatim>\<open>_params\<close> and \<^verbatim>\<open>param1\<close> are not the token \<^verbatim>\<open>param\<close>, and \<open>score_c\<close> is 0 for
  both.
\<close>

theorem score_c_substring_counterexample:
  "score_c (example_sig [''_params''] [''0xa9059cbb'']) = 0 \<and> ''_params'' \<noteq> ''param''
   \<and> score_c (example_sig [''param1''] [''0xa9059cbb'']) = 0 \<and> ''param1'' \<noteq> ''param''"
  by (simp add: score_c_def sublist_param_str_params example_sig_def sublist_Cons_right)

text \<open>
  C4, amended. \<open>score_c\<close> is 0 exactly when \<^verbatim>\<open>param\<close> is a substring of the type or of the
  name of some parameter of the candidate, and 100 otherwise.
\<close>

theorem score_c_substring:
  "score_c f =
     (if \<exists>p\<in>set (s_params f). sublist ''param'' (p_type p) \<or> sublist ''param'' (p_name p)
      then 0 else 100)"
  by (simp add: score_c_def sublist_param_str_params)

theorem score_c_substring_witness:
  "score_c (example_sig [''_to'', ''_value''] [''0xa9059cbb'']) = 100
   \<and> score_c (example_sig [''_to'', ''_param2''] [''0xa9059cbb'']) = 0"
  using score_c_substring [of "example_sig [''_to'', ''_value''] [''0xa9059cbb'']"]
    score_c_substring [of "example_sig [''_to'', ''_param2''] [''0xa9059cbb'']"]
  by (simp add: example_sig_def sublist_Cons_right)

subsection \<open>C5: a candidate without co-occurring selectors\<close>

text \<open>
  C5. The claim: for a candidate whose \<open>cooccurs\<close> is empty and a non-empty observed set
  the score is defined, without a division by zero, and \<open>score_b\<close> contributes 0.

  \<^verbatim>\<open>match_score\<close> divides by \<^verbatim>\<open>len(func["cooccurs"])\<close> without a test: on an empty list it
  raises \<^verbatim>\<open>ZeroDivisionError\<close>.
\<close>

theorem match_score_empty_cooccurs_counterexample:
  "match_score (example_sig [''_to'', ''_value''] []) [''0xa9059cbb''] = Inl ZeroDivisionError"
  by (simp add: match_score_def truediv_def example_sig_def float_round_0)

text \<open>
  C5, amended. The \<open>cooccurs\<close> of a candidate that \<^verbatim>\<open>fetch_sigs\<close> builds from a row is the
  split of the column and is never the empty list, so for every such candidate and every
  non-empty observed list the score is defined. For a row whose column is the empty
  string, \<open>cooccurs\<close> is the list of the empty string alone; when the empty string is not
  observed, \<open>score_b\<close> is 0 and the score is \<open>score_c\<close>.
\<close>

theorem match_score_store_candidate:
  assumes "hashes \<noteq> []"
  shows "(\<exists>score. match_score (row_signature r) hashes = Inr score)
       \<and> (r_cooccurs r = [] \<and> [] \<notin> set hashes \<longrightarrow>
            s_cooccurs (row_signature r) = [[]]
            \<and> truediv (count_in (s_cooccurs (row_signature r)) hashes)
                 (int (length (s_cooccurs (row_signature r)))) = Inr 0
            \<and> match_score (row_signature r) hashes = Inr (of_int (score_c (row_signature r))))"
proof (intro conjI impI)
  have "s_cooccurs (row_signature r) \<noteq> []"
    by (simp add: row_signature_def split_comma_not_Nil)
  with assms show "\<exists>score. match_score (row_signature r) hashes = Inr score"
    by (simp add: match_score_def truediv_def)
next
  assume a: "r_cooccurs r = [] \<and> [] \<notin> set hashes"
  then show c: "s_cooccurs (row_signature r) = [[]]"
    by (simp add: row_signature_def)
  from a show "truediv (count_in (s_cooccurs (row_signature r)) hashes)
                 (int (length (s_cooccurs (row_signature r)))) = Inr 0"
    by (simp add: c truediv_def float_round_0)
  have "score_c (row_signature r) = 0 \<or> score_c (row_signature r) = 100"
    by (simp add: score_c_def)
  then have "float_round (real_of_int (score_c (row_signature r)))
      = real_of_int (score_c (row_signature r))"
    by (auto simp: float_round_0 float_round_100)
  then show "match_score (row_signature r) hashes = Inr (of_int (score_c (row_signature r)))"
    using a assms count_in_disjoint [of hashes "[[]]"]
    by (simp add: match_score_def c truediv_def float_round_0 float_add_def)
qed

theorem match_score_store_candidate_witness:
  "[''0xa9059cbb''] \<noteq> [] \<and> r_cooccurs empty_cooccurs_row = []
   \<and> s_cooccurs (row_signature empty_cooccurs_row) = [[]]
   \<and> match_score (row_signature empty_cooccurs_row) [''0xa9059cbb''] = Inr 100"
proof -
  have "score_c (row_signature empty_cooccurs_row) = 100"
    by (simp add: score_c_def sublist_param_str_params row_signature_def empty_cooccurs_row_def
          sublist_Cons_right)
  moreover have "[''0xa9059cbb''] \<noteq> []" by simp
  moreover have "r_cooccurs empty_cooccurs_row = [] \<and> [] \<notin> set [''0xa9059cbb'']"
    by (simp add: empty_cooccurs_row_def)
  ultimately show ?thesis
    using match_score_store_candidate [of "[''0xa9059cbb'']" empty_cooccurs_row] by simp
qed

subsection \<open>C6: a direct read\<close>

text \<open>
  C6. With an ABI, a current function and its parameter list, \<^verbatim>\<open>get_param_name\<close> returns a
  direct read \<^verbatim>\<open>("cd", offset)\<close> as it is when \<open>(offset - 4) mod 32 \<noteq> 0\<close>, as for offset
  37; when \<open>(offset - 4) mod 32 = 0\<close> and the index \<open>(offset - 4) div 32\<close> is in the range of
  the parameter list, it returns the name of the parameter at that index, in colour if
  asked: offset 36 with the parameters \<^verbatim>\<open>_from\<close> and \<^verbatim>\<open>_to\<close> gives \<^verbatim>\<open>_to\<close>.
\<close>

theorem get_param_name_direct_read:
  assumes "abi st = AttrVal a" and "func st = AttrVal f" and "e_params f = Some params"
  shows "((offset - 4) mod 32 \<noteq> 0 \<longrightarrow>
            get_param_name hp st (ETup [EStr ''cd'', EInt offset]) add_color
              = Inr (Unresolved (ETup [EStr ''cd'', EInt offset])))
       \<and> ((offset - 4) mod 32 = 0 \<and> 0 \<le> (offset - 4) div 32
            \<and> (offset - 4) div 32 < int (length params) \<longrightarrow>
            get_param_name hp st (ETup [EStr ''cd'', EInt offset]) add_color
              = Inr (Named (colorize hp (p_name (params ! nat ((offset - 4) div 32)))
                              (COLOR_GREEN hp) add_color)))"
  using assms
  by (subst get_param_name.simps, subst get_param_name.simps)
     (simp add: match_cd_cd Let_def py_index_def)

theorem get_param_name_direct_read_witness:
  "(37 - 4) mod 32 \<noteq> (0::int)
   \<and> get_param_name example_helpers (example_storage [''_from'', ''_to''])
       (ETup [EStr ''cd'', EInt 37]) False
       = Inr (Unresolved (ETup [EStr ''cd'', EInt 37]))
   \<and> (36 - 4) mod 32 = (0::int) \<and> (36 - 4) div 32 = (1::int)
   \<and> get_param_name example_helpers (example_storage [''_from'', ''_to''])
       (ETup [EStr ''cd'', EInt 36]) False
       = Inr (Named ''_to'')"
proof -
  have 1: "abi (example_storage [''_from'', ''_to''])
      = AttrVal [(''0x12345678'', example_entry [''_from'', ''_to''])]"
    by (simp add: example_storage_def)
  have 2: "func (example_storage [''_from'', ''_to'']) = AttrVal (example_entry [''_from'', ''_to''])"
    by (simp add: example_storage_def)
  have 3: "e_params (example_entry [''_from'', ''_to''])
      = Some [\<lparr>p_type = ''uint256'', p_name = ''_from''\<rparr>, \<lparr>p_type = ''uint256'', p_name = ''_to''\<rparr>]"
    by (simp add: example_entry_def)
  show ?thesis
    using get_param_name_direct_read [OF 1 2 3, of 37 example_helpers False]
      get_param_name_direct_read [OF 1 2 3, of 36 example_helpers False]
    by (simp add: colorize_def)
qed

subsection \<open>C7: the shapes of an array access\<close>

text \<open>
  C7. With an ABI, a current function and its parameter list, \<^verbatim>\<open>get_param_name\<close> matches a
  read whose offset is no integer in this order:
  \<^verbatim>\<open>("add", 4, ("param", p))\<close> gives \<^verbatim>\<open>p + ".length"\<close>;
  \<^verbatim>\<open>("add", 4, ("cd", inner))\<close> gives the result for \<^verbatim>\<open>("cd", inner)\<close> followed by
  \<^verbatim>\<open>.length\<close>;
  \<^verbatim>\<open>("add", k, ("cd", inner))\<close> with an integer \<open>k\<close> other than 4 gives the result for
  \<^verbatim>\<open>("cd", inner)\<close> followed by \<open>(k - 36) div 32\<close> in brackets, so that \<open>k = 68\<close> with an
  inner name \<^verbatim>\<open>arr\<close> gives \<^verbatim>\<open>arr[1]\<close>.
\<close>

theorem get_param_name_array_shapes:
  assumes "abi st = AttrVal a" and "func st = AttrVal f" and "e_params f = Some params"
  shows "get_param_name hp st
           (ETup [EStr ''cd'', ETup [EStr ''add'', EInt 4, ETup [EStr ''param'', EStr p]]]) add_color
           = Inr (Named (colorize hp (p @ ''.length'') (COLOR_GREEN hp) add_color))
       \<and> (get_param_name hp st (ETup [EStr ''cd'', inner]) False = Inr r \<longrightarrow>
            get_param_name hp st
              (ETup [EStr ''cd'', ETup [EStr ''add'', EInt 4, ETup [EStr ''cd'', inner]]]) add_color
              = Inr (Named (colorize hp (str_rendered r @ ''.length'') (COLOR_GREEN hp) add_color)))
       \<and> (k \<noteq> 4 \<and> get_param_name hp st (ETup [EStr ''cd'', inner]) False = Inr r \<longrightarrow>
            get_param_name hp st
              (ETup [EStr ''cd'', ETup [EStr ''add'', EInt k, ETup [EStr ''cd'', inner]]]) add_color
              = Inr (Named (colorize hp
                  (str_rendered r @ ''['' @ str_int ((k - 36) div 32) @ '']'')
                  (COLOR_GREEN hp) add_color)))"
proof (intro conjI impI)
  show "get_param_name hp st
           (ETup [EStr ''cd'', ETup [EStr ''add'', EInt 4, ETup [EStr ''param'', EStr p]]]) add_color
           = Inr (Named (colorize hp (p @ ''.length'') (COLOR_GREEN hp) add_color))"
    using assms
    by (subst get_param_name.simps)
       (simp add: match_cd_cd match_add_4_param_def str_add_def Let_def)
next
  assume "get_param_name hp st (ETup [EStr ''cd'', inner]) False = Inr r"
  then show "get_param_name hp st
              (ETup [EStr ''cd'', ETup [EStr ''add'', EInt 4, ETup [EStr ''cd'', inner]]]) add_color
              = Inr (Named (colorize hp (str_rendered r @ ''.length'') (COLOR_GREEN hp) add_color))"
    using assms
    by (subst get_param_name.simps)
       (simp add: match_cd_cd match_add_4_param_def match_add_4_cd_def Let_def)
next
  assume "k \<noteq> 4 \<and> get_param_name hp st (ETup [EStr ''cd'', inner]) False = Inr r"
  then show "get_param_name hp st
              (ETup [EStr ''cd'', ETup [EStr ''add'', EInt k, ETup [EStr ''cd'', inner]]]) add_color
              = Inr (Named (colorize hp
                  (str_rendered r @ ''['' @ str_int ((k - 36) div 32) @ '']'')
                  (COLOR_GREEN hp) add_color))"
    using assms
    by (subst get_param_name.simps)
       (simp add: match_cd_cd match_add_4_param_def match_add_4_cd_def match_add_int_cd_def Let_def)
qed

theorem get_param_name_array_shapes_witness:
  "get_param_name example_helpers (example_storage [''arr''])
     (ETup [EStr ''cd'', ETup [EStr ''add'', EInt 4, ETup [EStr ''param'', EStr ''arr'']]]) False
     = Inr (Named ''arr.length'')
   \<and> get_param_name example_helpers (example_storage [''arr''])
     (ETup [EStr ''cd'', ETup [EStr ''add'', EInt 4, ETup [EStr ''cd'', EInt 4]]]) False
     = Inr (Named ''arr.length'')
   \<and> get_param_name example_helpers (example_storage [''arr''])
     (ETup [EStr ''cd'', ETup [EStr ''add'', EInt 68, ETup [EStr ''cd'', EInt 4]]]) False
     = Inr (Named ''arr[1]'')"
proof -
  have 1: "abi (example_storage [''arr'']) = AttrVal [(''0x12345678'', example_entry [''arr''])]"
    by (simp add: example_storage_def)
  have 2: "func (example_storage [''arr'']) = AttrVal (example_entry [''arr''])"
    by (simp add: example_storage_def)
  have 3: "e_params (example_entry [''arr'']) = Some [\<lparr>p_type = ''uint256'', p_name = ''arr''\<rparr>]"
    by (simp add: example_entry_def)
  have inner: "get_param_name example_helpers (example_storage [''arr''])
      (ETup [EStr ''cd'', EInt 4]) False = Inr (Named ''arr'')"
    by (subst get_param_name.simps)
       (simp add: match_cd_cd example_storage_def example_entry_def py_index_def colorize_def)
  show ?thesis
    using get_param_name_array_shapes [OF 1 2 3, where hp = example_helpers and p = "''arr''"
        and add_color = False and inner = "EInt 4" and r = "Named ''arr''" and k = 68] inner
    by (simp add: str_int_1 colorize_def str_rendered_def)
qed

subsection \<open>C8: the cache of the ABI Builder\<close>

text \<open>
  C8. The name of the cache file is the digest of the sorted list of the selectors: two
  dictionaries with the same selectors have the same name, in whatever order they list
  them. When a run of \<^verbatim>\<open>make_abi\<close> returns an ABI, a second run for the same selectors
  returns the same ABI and leaves the cache as it is.
\<close>

theorem make_abi_deterministic:
  assumes "distinct (map fst ht)" and "distinct (map fst ht')"
    and "set (map fst ht) = set (map fst ht')"
  shows "hash_name sha ht = hash_name sha ht'
       \<and> (make_abi sha ht w = Inr (r, w1) \<longrightarrow> make_abi sha ht' w1 = Inr (r, w1))"
proof (intro conjI impI)
  show eq: "hash_name sha ht = hash_name sha ht'"
    using sort_same_keys [OF assms] by (simp add: hash_name_def)
  assume "make_abi sha ht w = Inr (r, w1)"
  from make_abi_result [OF this refl]
  show "make_abi sha ht' w1 = Inr (r, w1)"
    by (intro make_abi_cached [where hn = "hash_name sha ht"]) (simp_all add: eq)
qed

theorem make_abi_deterministic_witness:
  "hash_name (\<lambda>s. s) example_hash_targets = hash_name (\<lambda>s. s) (rev example_hash_targets)
   \<and> (\<exists>w1. make_abi (\<lambda>s. s) example_hash_targets example_world
              = Inr ([(''0xa9059cbb'', babbage_entry), (''0x70a08231'', unknown_balance_entry)], w1)
           \<and> make_abi (\<lambda>s. s) (rev example_hash_targets) w1
              = Inr ([(''0xa9059cbb'', babbage_entry), (''0x70a08231'', unknown_balance_entry)], w1))"
proof -
  let ?r = "[(''0xa9059cbb'', babbage_entry), (''0x70a08231'', unknown_balance_entry)]"
  have 1: "distinct (map fst example_hash_targets)"
    by (simp add: example_hash_targets_def)
  have 2: "distinct (map fst (rev example_hash_targets))"
    by (simp add: example_hash_targets_def)
  have 3: "set (map fst example_hash_targets) = set (map fst (rev example_hash_targets))"
    by (auto simp: example_hash_targets_def)
  obtain w1 where run: "make_abi (\<lambda>s. s) example_hash_targets example_world = Inr (?r, w1)"
    using example_run [of "\<lambda>s. s"]
    by (cases "make_abi (\<lambda>s. s) example_hash_targets example_world") auto
  show ?thesis
    using make_abi_deterministic [OF 1 2 3, of "\<lambda>s. s" example_world ?r w1] run by blast
qed

subsection \<open>C9: the working copy of the store\<close>




subsection \<open>C10: no ABI, no current function, no parameter list\<close>

text \<open>
  C10. The claim: when no ABI is active, or no current function is bound, or the entry of
  the bound function has no parameter list, \<^verbatim>\<open>get_param_name\<close> returns the expression as
  it is and raises nothing.

  \<^verbatim>\<open>get_param_name\<close> tests \<^verbatim>\<open>_storage.abi is None\<close> and \<^verbatim>\<open>_storage.func is None\<close>, but
  \<^verbatim>\<open>_storage\<close> is a thread-local object to which \<^verbatim>\<open>None\<close> is never assigned: before
  \<^verbatim>\<open>make_abi\<close> the attribute \<^verbatim>\<open>abi\<close> is unset, after \<^verbatim>\<open>make_abi\<close> and before \<^verbatim>\<open>set_func\<close>
  the attribute \<^verbatim>\<open>func\<close> is unset, and reading either raises \<^verbatim>\<open>AttributeError\<close>.
\<close>

theorem get_param_name_unset_attribute:
  "get_param_name example_helpers (new_local :: int storage) (ETup [EStr ''cd'', EInt 36]) False
     = Inl AttributeError
   \<and> w_storage example_world = new_local
   \<and> map_sum id (\<lambda>(r, w). w_storage w) (make_abi sha example_hash_targets example_world)
       = Inr \<lparr>abi = AttrVal [(''0xa9059cbb'', babbage_entry), (''0x70a08231'', unknown_balance_entry)],
              func = AttrUnset\<rparr>
   \<and> get_param_name example_helpers
       \<lparr>abi = AttrVal [(''0xa9059cbb'', babbage_entry), (''0x70a08231'', unknown_balance_entry)],
        func = AttrUnset\<rparr>
       (ETup [EStr ''cd'', EInt 36]) False
     = Inl AttributeError"
proof -
  have 1: "get_param_name example_helpers (new_local :: int storage)
      (ETup [EStr ''cd'', EInt 36]) False = Inl AttributeError"
    by (subst get_param_name.simps) (simp add: match_cd_cd new_local_def)
  have 2: "get_param_name example_helpers
       \<lparr>abi = AttrVal [(''0xa9059cbb'', babbage_entry), (''0x70a08231'', unknown_balance_entry)],
        func = AttrUnset\<rparr>
       (ETup [EStr ''cd'', EInt 36]) False
     = Inl AttributeError"
    by (subst get_param_name.simps) (simp add: match_cd_cd)
  show ?thesis
    using 1 2 example_run_storage [of sha] by (simp add: example_world_def new_local_def)
qed


end
